theory Spec2Isabelle
  imports Complex_Main
begin

text \<open>
  A model of the two parts of the repository that carry logic: the room of the server,
  which applies the intents of the participants to the shared state and broadcasts what
  changed, and the hook of the client, which owns the connection to the room and decides
  when to retry. Each function of the source is a function here, on an explicit state;
  what a function sends or schedules is part of the state it returns.
\<close>

section \<open>The room server (src/rooms/GameRoom.ts)\<close>

subsection \<open>MapSchema: a keyed collection in insertion order\<close>

text \<open>
  A \<open>MapSchema\<close> is a JavaScript map: \<open>get\<close> returns the entry of a key or
  \<open>undefined\<close>, \<open>set\<close> replaces the entry of a present key in place and appends an
  absent one, \<open>delete\<close> removes the entry of the key, \<open>size\<close> counts the entries.
  It is an association list whose keys are distinct.
\<close>

type_synonym 'v MapSchema = "(string \<times> 'v) list"

fun map_get :: "'v MapSchema \<Rightarrow> string \<Rightarrow> 'v option" where
  "map_get [] k = None"
| "map_get ((k', v) # m) k = (if k' = k then Some v else map_get m k)"

fun map_set :: "string \<Rightarrow> 'v \<Rightarrow> 'v MapSchema \<Rightarrow> 'v MapSchema" where
  "map_set k v [] = [(k, v)]"
| "map_set k v ((k', v') # m) = (if k' = k then (k, v) # m else (k', v') # map_set k v m)"

fun map_delete :: "string \<Rightarrow> 'v MapSchema \<Rightarrow> 'v MapSchema" where
  "map_delete k [] = []"
| "map_delete k ((k', v') # m) = (if k' = k then map_delete k m else (k', v') # map_delete k m)"

definition map_size :: "'v MapSchema \<Rightarrow> nat" where
  "map_size m = length m"

definition keys :: "'v MapSchema \<Rightarrow> string list" where
  "keys m = map fst m"

subsection \<open>Schema classes\<close>

text \<open>
  \<open>Player\<close> and \<open>MyState\<close> are the classes of GameRoom.ts; \<open>HexCell\<close> and the
  \<open>hexGrid\<close> field of the state are the classes of the hex synchronisation listing.
  The fields carry a prefix, since a record field is a constant of the theory.
\<close>

record Player =
  p_name :: string
  p_x :: real
  p_y :: real
  p_status :: string
  p_joinedAt :: real
  p_color :: string

record HexCell =
  h_q :: int
  h_r :: int
  h_selectedBy :: string
  h_color :: string

record MyState =
  players :: "Player MapSchema"
  hexGrid :: "HexCell MapSchema"
  gameStatus :: string
  playerCount :: nat

text \<open>What a handler sends: a broadcast to every client of the room, or a message to one client.\<close>

datatype message =
    Chat string string real
  | StateUpdate nat string nat
  | PlayerUpdate "Player MapSchema"
  | Welcome string string string
  | HexUpdate int int string string string

datatype outgoing = Broadcast message | SendTo string message

subsection \<open>onCreate and the message handlers\<close>

text \<open>
  \<open>onCreate\<close> starts from an empty roster in status waiting. The listing of the hex
  synchronisation does not show how the cells of the grid are created, so the grid is a
  parameter.
\<close>

definition onCreate :: "HexCell MapSchema \<Rightarrow> MyState" where
  "onCreate grid = \<lparr>players = [], hexGrid = grid, gameStatus = ''waiting'', playerCount = 0\<rparr>"

definition move_handler :: "MyState \<Rightarrow> string \<Rightarrow> real \<Rightarrow> real \<Rightarrow> MyState \<times> outgoing list" where
  "move_handler st sessionId mx my =
     (case map_get (players st) sessionId of
        Some player \<Rightarrow>
          (st\<lparr>players := map_set sessionId
                 (player\<lparr>p_x := mx, p_y := my, p_status := ''moving''\<rparr>) (players st)\<rparr>, [])
      | None \<Rightarrow> (st, []))"

definition chat_handler :: "MyState \<Rightarrow> string \<Rightarrow> string \<Rightarrow> real \<Rightarrow> MyState \<times> outgoing list" where
  "chat_handler st sessionId msg now = (st, [Broadcast (Chat sessionId msg now)])"

definition status_handler :: "MyState \<Rightarrow> string \<Rightarrow> string \<Rightarrow> MyState \<times> outgoing list" where
  "status_handler st sessionId s =
     (case map_get (players st) sessionId of
        Some player \<Rightarrow>
          (st\<lparr>players := map_set sessionId (player\<lparr>p_status := s\<rparr>) (players st)\<rparr>, [])
      | None \<Rightarrow> (st, []))"

text \<open>
  The key of a cell is the template string \<open>`${q},${r}`\<close>. The coordinates are the
  integers of the client's grid, which JavaScript prints in plain decimal.
\<close>

definition digit_char :: "nat \<Rightarrow> char" where
  "digit_char d = ''0123456789'' ! d"

function decimal_digits :: "nat \<Rightarrow> string \<Rightarrow> string" where
  "decimal_digits n acc =
     (if n < 10 then digit_char n # acc
      else decimal_digits (n div 10) (digit_char (n mod 10) # acc))"
  by pat_completeness auto
termination
  by (relation "measure fst") auto

definition number_to_string :: "int \<Rightarrow> string" where
  "number_to_string i =
     (if i < 0 then CHR ''-'' # decimal_digits (nat (- i)) [] else decimal_digits (nat i) [])"

definition hexKey :: "int \<Rightarrow> int \<Rightarrow> string" where
  "hexKey mq mr = number_to_string mq @ '','' @ number_to_string mr"

text \<open>
  The handler of \<open>hexSelect\<close>, as listed under "Hex Selection Handler" in the notes on the
  hex selection synchronisation, which register it in \<open>onCreate\<close> of GameRoom.ts.
\<close>

definition hexSelect_handler :: "MyState \<Rightarrow> string \<Rightarrow> int \<Rightarrow> int \<Rightarrow> MyState \<times> outgoing list" where
  "hexSelect_handler st sessionId mq mr =
     (case map_get (hexGrid st) (hexKey mq mr) of
        None \<Rightarrow> (st, [])
      | Some hexCell \<Rightarrow>
          (case map_get (players st) sessionId of
             None \<Rightarrow> (st, [])
           | Some player \<Rightarrow>
               (let hexCell' =
                      (if h_selectedBy hexCell = sessionId
                       then hexCell\<lparr>h_selectedBy := [], h_color := []\<rparr>
                       else hexCell\<lparr>h_selectedBy := sessionId, h_color := p_color player\<rparr>)
                in (st\<lparr>hexGrid := map_set (hexKey mq mr) hexCell' (hexGrid st)\<rparr>,
                    [Broadcast (HexUpdate mq mr (h_selectedBy hexCell') (h_color hexCell')
                       (if h_selectedBy hexCell' \<noteq> [] then p_name player else []))]))))"

subsection \<open>onJoin and onLeave\<close>

definition playerColors :: "string list" where
  "playerColors =
     [''#3b82f6'', ''#ef4444'', ''#10b981'', ''#f59e0b'',
      ''#8b5cf6'', ''#f97316'', ''#06b6d4'', ''#84cc16'']"

text \<open>\<open>options.name || `Player_${sessionId.substring(0, 6)}`\<close>: an absent or empty name falls back.\<close>

definition join_name :: "string option \<Rightarrow> string \<Rightarrow> string" where
  "join_name opt sessionId =
     (case opt of
        None \<Rightarrow> ''Player_'' @ take 6 sessionId
      | Some n \<Rightarrow> (if n = [] then ''Player_'' @ take 6 sessionId else n))"

definition onJoin ::
  "string \<Rightarrow> MyState \<Rightarrow> string \<Rightarrow> string option \<Rightarrow> real \<Rightarrow> MyState \<times> outgoing list" where
  "onJoin roomId st sessionId opt now =
     (let colorIndex = map_size (players st) mod length playerColors;
          player = \<lparr>p_name = join_name opt sessionId, p_x = 0, p_y = 0, p_status = ''idle'',
                    p_joinedAt = now, p_color = playerColors ! colorIndex\<rparr>;
          st1 = st\<lparr>players := map_set sessionId player (players st)\<rparr>;
          st2 = st1\<lparr>playerCount := map_size (players st1)\<rparr>;
          st3 = (if playerCount st2 \<ge> 2 then st2\<lparr>gameStatus := ''active''\<rparr>
                 else st2\<lparr>gameStatus := ''waiting''\<rparr>)
      in (st3,
          [Broadcast (StateUpdate (playerCount st3) (gameStatus st3) (map_size (players st3))),
           Broadcast (PlayerUpdate (players st3)),
           SendTo sessionId (Welcome sessionId (p_name player) roomId)]))"

definition onLeave :: "MyState \<Rightarrow> string \<Rightarrow> MyState \<times> outgoing list" where
  "onLeave st sessionId =
     (let st1 = st\<lparr>players := map_delete sessionId (players st)\<rparr>;
          st2 = st1\<lparr>playerCount := map_size (players st1)\<rparr>;
          st3 = (if playerCount st2 < 2 then st2\<lparr>gameStatus := ''waiting''\<rparr> else st2)
      in (st3,
          [Broadcast (StateUpdate (playerCount st3) (gameStatus st3) (map_size (players st3))),
           Broadcast (PlayerUpdate (players st3))]))"

subsection \<open>Runs of a room\<close>

text \<open>
  The room handles one call at a time, in arrival order. A run applies a list of calls to
  a state and collects what was sent.
\<close>

datatype room_op =
    Join string "string option" real
  | Leave string
  | Move string real real
  | ChatMsg string string real
  | Status string string
  | HexSelect string int int

fun room_step :: "string \<Rightarrow> MyState \<Rightarrow> room_op \<Rightarrow> MyState \<times> outgoing list" where
  "room_step roomId st (Join sid opt now) = onJoin roomId st sid opt now"
| "room_step roomId st (Leave sid) = onLeave st sid"
| "room_step roomId st (Move sid mx my) = move_handler st sid mx my"
| "room_step roomId st (ChatMsg sid msg now) = chat_handler st sid msg now"
| "room_step roomId st (Status sid s) = status_handler st sid s"
| "room_step roomId st (HexSelect sid mq mr) = hexSelect_handler st sid mq mr"

fun room_run :: "string \<Rightarrow> MyState \<Rightarrow> room_op list \<Rightarrow> MyState" where
  "room_run roomId st [] = st"
| "room_run roomId st (op # ops) = room_run roomId (fst (room_step roomId st op)) ops"

subsection \<open>Predicates on rooms and runs\<close>

text \<open>
  The invariant of the aggregate state: the stored count is the size of the roster and
  the stored status is the one derived from the count.
\<close>

definition room_inv :: "MyState \<Rightarrow> bool" where
  "room_inv st =
     (playerCount st = map_size (players st) \<and>
      gameStatus st = (if playerCount st \<ge> 2 then ''active'' else ''waiting''))"

text \<open>
  A run has no overlapping identities when every join is by an identity that is not in
  the room and every leave is by one that is; \<open>present\<close> lists the identities in the room.
\<close>

fun valid_ops :: "string list \<Rightarrow> room_op list \<Rightarrow> bool" where
  "valid_ops present [] = True"
| "valid_ops present (Join sid opt now # ops) =
     (sid \<notin> set present \<and> valid_ops (present @ [sid]) ops)"
| "valid_ops present (Leave sid # ops) =
     (sid \<in> set present \<and> valid_ops (removeAll sid present) ops)"
| "valid_ops present (op # ops) = valid_ops present ops"

fun joins :: "room_op list \<Rightarrow> nat" where
  "joins [] = 0"
| "joins (Join sid opt now # ops) = Suc (joins ops)"
| "joins (op # ops) = joins ops"

fun leaves :: "room_op list \<Rightarrow> nat" where
  "leaves [] = 0"
| "leaves (Leave sid # ops) = Suc (leaves ops)"
| "leaves (op # ops) = leaves ops"

text \<open>The join of an identity, with the name option and the clock reading it arrives with.\<close>

definition join_op :: "(string \<Rightarrow> string option) \<Rightarrow> (string \<Rightarrow> real) \<Rightarrow> string \<Rightarrow> room_op" where
  "join_op nm tm sid = Join sid (nm sid) (tm sid)"

text \<open>
  A room for the examples: two participants, cell (0,0) selected by the first of them,
  cell (1,0) free.
\<close>

definition demo_room :: MyState where
  "demo_room =
     \<lparr>players =
        [(''P1'', \<lparr>p_name = ''Ann'', p_x = 0, p_y = 0, p_status = ''idle'', p_joinedAt = 10,
                   p_color = ''#3b82f6''\<rparr>),
         (''P2'', \<lparr>p_name = ''Bob'', p_x = 5, p_y = 6, p_status = ''idle'', p_joinedAt = 20,
                   p_color = ''#ef4444''\<rparr>)],
      hexGrid =
        [(''0,0'', \<lparr>h_q = 0, h_r = 0, h_selectedBy = ''P1'', h_color = ''#3b82f6''\<rparr>),
         (''1,0'', \<lparr>h_q = 1, h_r = 0, h_selectedBy = [], h_color = []\<rparr>)],
      gameStatus = ''active'', playerCount = 2\<rparr>"

section \<open>The connection hook (src/hooks/useColyseus.ts)\<close>

subsection \<open>State of the hook\<close>

datatype ConnectionStatus = Disconnected | Connecting | Connected | Error | Reconnecting

record ColyseusHookOptions =
  autoReconnect :: bool
  reconnectInterval :: real
  maxReconnectAttempts :: nat

text \<open>The defaults of the destructuring of \<open>hookOptions\<close>.\<close>

definition default_options :: ColyseusHookOptions where
  "default_options = \<lparr>autoReconnect = False, reconnectInterval = 10000, maxReconnectAttempts = 3\<rparr>"

text \<open>The room object that \<open>joinOrCreate\<close> resolves with.\<close>

record RoomInstance =
  ri_roomId :: string
  ri_sessionId :: string

text \<open>What a rejected \<open>joinOrCreate\<close> throws: an \<open>Error\<close> with its message, or another value.\<close>

datatype js_error = ErrorObj string | NotAnError

text \<open>
  The hook's copy of the room state. A field is absent when an update was spread over a
  null previous state.
\<close>

record ClientState =
  cs_players :: "Player MapSchema option"
  cs_gameStatus :: "string option"
  cs_playerCount :: "nat option"

text \<open>
  The event loop holds what the hook has scheduled: the timers of \<open>setTimeout\<close>, each with
  the time it is due, and the promise of a \<open>joinOrCreate\<close> call. \<open>BackoffDelay\<close> is the
  timer that \<open>connect\<close> awaits before a retry; the other three carry the callbacks of
  \<open>scheduleReconnect\<close>, of the circuit breaker and of \<open>manualReconnect\<close>.
\<close>

datatype timer_kind = ReconnectTimer | CircuitBreakerReset | ManualReconnectTimer | BackoffDelay

datatype task = Timer real timer_kind | JoinOrCreate

text \<open>
  What the hook does to the outside: calls on a room and on the client library, the
  EventBus, and the warning that \<open>sendMessage\<close> prints in place of sending. Other console
  output is diagnostic and is left out.
\<close>

datatype effect =
    JoinOrCreateCalled
  | RoomLeft RoomInstance
  | RoomSent RoomInstance string string
  | ConsoleWarn string
  | EventBusEmit int int string string

text \<open>
  The React state of the hook (\<open>room\<close> to \<open>messages\<close>), its refs, and the world around
  it: the simulated clock, the event loop, the rooms whose handlers are registered and
  the log of effects. \<open>attemptsStarted\<close> is a ghost counter: it counts how often
  \<open>connect\<close> has passed its guards and entered the connecting state.
\<close>

record hook =
  room :: "RoomInstance option"
  state :: "ClientState option"
  connectionStatus :: ConnectionStatus
  error :: "string option"
  sessionId :: "string option"
  messages :: "(string \<times> string \<times> real) list"
  clientRef :: bool
  roomRef :: "RoomInstance option"
  reconnectTimeoutRef :: "nat option"
  reconnectAttemptsRef :: nat
  isConnectingRef :: bool
  shouldReconnectRef :: bool
  lastConnectionAttemptRef :: real
  connectionFailureCountRef :: nat
  clock :: real
  pending :: "(nat \<times> task) list"
  nextId :: nat
  listening :: "RoomInstance list"
  effects :: "effect list"
  attemptsStarted :: nat

definition hook_init :: hook where
  "hook_init =
     \<lparr>room = None, state = None, connectionStatus = Disconnected, error = None,
      sessionId = None, messages = [], clientRef = False, roomRef = None,
      reconnectTimeoutRef = None, reconnectAttemptsRef = 0, isConnectingRef = False,
      shouldReconnectRef = True, lastConnectionAttemptRef = 0, connectionFailureCountRef = 0,
      clock = 0, pending = [], nextId = 0, listening = [], effects = [],
      attemptsStarted = 0\<rparr>"

subsection \<open>The event loop\<close>

definition add_task :: "task \<Rightarrow> hook \<Rightarrow> hook" where
  "add_task t h = h\<lparr>pending := pending h @ [(nextId h, t)], nextId := Suc (nextId h)\<rparr>"

definition remove_task :: "nat \<Rightarrow> hook \<Rightarrow> hook" where
  "remove_task i h = h\<lparr>pending := filter (\<lambda>p. fst p \<noteq> i) (pending h)\<rparr>"

definition emit :: "effect \<Rightarrow> hook \<Rightarrow> hook" where
  "emit e h = h\<lparr>effects := effects h @ [e]\<rparr>"

subsection \<open>cleanup, connect and scheduleReconnect\<close>

definition cleanup :: "hook \<Rightarrow> hook" where
  "cleanup h =
     (let h1 = h\<lparr>shouldReconnectRef := False\<rparr>;
          h2 = (case reconnectTimeoutRef h1 of
                  Some i \<Rightarrow> (remove_task i h1)\<lparr>reconnectTimeoutRef := None\<rparr>
                | None \<Rightarrow> h1);
          h3 = (case roomRef h2 of
                  Some r \<Rightarrow> (emit (RoomLeft r) h2)\<lparr>roomRef := None\<rparr>
                | None \<Rightarrow> h2);
          h4 = h3\<lparr>clientRef := False\<rparr>
      in h4\<lparr>room := None, state := None, sessionId := None, messages := [],
              isConnectingRef := False\<rparr>)"

text \<open>
  The delay that \<open>connect\<close> awaits before it calls the server: none on a first attempt,
  \<open>Math.min(2000 * Math.pow(1.5, n), 15000)\<close> when the reconnect-attempt count \<open>n\<close> is
  positive. The powers of 1.5 that stay below the cap are exact in double precision.
\<close>

definition connect_delay :: "nat \<Rightarrow> real option" where
  "connect_delay n = (if n > 0 then Some (min (2000 * 1.5 ^ n) 15000) else None)"

text \<open>The second half of \<open>connect\<close>, from the clean-up of an existing room to the call of the server.\<close>

definition connect_join :: "hook \<Rightarrow> hook" where
  "connect_join h =
     (let h1 = (case roomRef h of Some r \<Rightarrow> emit (RoomLeft r) h | None \<Rightarrow> h);
          h2 = h1\<lparr>clientRef := True\<rparr>
      in add_task JoinOrCreate (emit JoinOrCreateCalled h2))"

text \<open>
  \<open>connect\<close> up to its first \<open>await\<close>. The four early returns come before the \<open>try\<close>, so
  the \<open>finally\<close> block does not run for them.
\<close>

definition connect :: "ColyseusHookOptions \<Rightarrow> real \<Rightarrow> hook \<Rightarrow> hook" where
  "connect opts now h =
     (if isConnectingRef h then h
      else if \<not> shouldReconnectRef h then h
      else if now - lastConnectionAttemptRef h < 5000 then h
      else if connectionFailureCountRef h \<ge> 3 then
        add_task (Timer (now + min (real (connectionFailureCountRef h) * 10000) 60000)
                    CircuitBreakerReset) h
      else
        (let h1 = h\<lparr>lastConnectionAttemptRef := now, isConnectingRef := True,
                     connectionStatus := Connecting, error := None,
                     attemptsStarted := Suc (attemptsStarted h)\<rparr>
         in case connect_delay (reconnectAttemptsRef h1) of
              Some delayMs \<Rightarrow> add_task (Timer (now + delayMs) BackoffDelay) h1
            | None \<Rightarrow> connect_join h1))"

definition scheduleReconnect :: "ColyseusHookOptions \<Rightarrow> real \<Rightarrow> hook \<Rightarrow> hook" where
  "scheduleReconnect opts now h =
     (if reconnectTimeoutRef h \<noteq> None \<or> \<not> shouldReconnectRef h then h
      else
        (let h1 = h\<lparr>reconnectAttemptsRef := Suc (reconnectAttemptsRef h),
                     connectionStatus := Reconnecting\<rparr>
         in (add_task (Timer (now + reconnectInterval opts) ReconnectTimer) h1)
              \<lparr>reconnectTimeoutRef := Some (nextId h1)\<rparr>))"

text \<open>\<open>connect\<close> after \<open>joinOrCreate\<close> has resolved with a room.\<close>

definition connect_resolved :: "RoomInstance \<Rightarrow> hook \<Rightarrow> hook" where
  "connect_resolved roomInstance h =
     (if \<not> shouldReconnectRef h then (emit (RoomLeft roomInstance) h)\<lparr>isConnectingRef := False\<rparr>
      else
        h\<lparr>roomRef := Some roomInstance, room := Some roomInstance,
          sessionId := Some (ri_sessionId roomInstance), connectionStatus := Connected,
          reconnectAttemptsRef := 0, connectionFailureCountRef := 0,
          state := Some \<lparr>cs_players = Some [], cs_gameStatus = Some ''waiting'',
                          cs_playerCount = Some 0\<rparr>,
          listening := listening h @ [roomInstance],
          isConnectingRef := False\<rparr>)"

fun str_includes :: "string \<Rightarrow> string \<Rightarrow> bool" where
  "str_includes [] sub = (sub = [])"
| "str_includes (c # s) sub = (take (length sub) (c # s) = sub \<or> str_includes s sub)"

definition errorMessage :: "js_error \<Rightarrow> string" where
  "errorMessage err =
     (case err of
        NotAnError \<Rightarrow> ''Connection failed''
      | ErrorObj m \<Rightarrow>
          (if str_includes m ''ERR_INSUFFICIENT_RESOURCES''
           then ''Server overloaded or sleeping (Render free tier). Try again in a moment.''
           else if str_includes m ''ERR_NETWORK''
           then ''Network error - check your internet connection''
           else if str_includes m ''ERR_CONNECTION_REFUSED''
           then ''Connection refused - server may be down''
           else m))"

text \<open>\<open>connect\<close> after \<open>joinOrCreate\<close> has been rejected: the \<open>catch\<close> and the \<open>finally\<close> block.\<close>

definition connect_rejected :: "ColyseusHookOptions \<Rightarrow> real \<Rightarrow> js_error \<Rightarrow> hook \<Rightarrow> hook" where
  "connect_rejected opts now err h =
     (let h1 = h\<lparr>error := Some (errorMessage err), connectionStatus := Error,
                  connectionFailureCountRef := Suc (connectionFailureCountRef h)\<rparr>;
          h2 = (if autoReconnect opts \<and> shouldReconnectRef h1 \<and>
                   reconnectAttemptsRef h1 < maxReconnectAttempts opts
                then scheduleReconnect opts now h1 else h1)
      in h2\<lparr>isConnectingRef := False\<rparr>)"

text \<open>The callback of each timer.\<close>

definition fire_timer :: "ColyseusHookOptions \<Rightarrow> real \<Rightarrow> timer_kind \<Rightarrow> hook \<Rightarrow> hook" where
  "fire_timer opts now k h =
     (case k of
        ReconnectTimer \<Rightarrow>
          (let h1 = h\<lparr>reconnectTimeoutRef := None\<rparr>
           in if shouldReconnectRef h1 then connect opts now h1 else h1)
      | CircuitBreakerReset \<Rightarrow> h\<lparr>connectionFailureCountRef := 0\<rparr>
      | ManualReconnectTimer \<Rightarrow> (if shouldReconnectRef h then connect opts now h else h)
      | BackoffDelay \<Rightarrow> connect_join h)"

subsection \<open>What the hook returns: sendMessage, disconnect, reconnect\<close>

definition sendMessage :: "string \<Rightarrow> string \<Rightarrow> hook \<Rightarrow> hook" where
  "sendMessage type data h =
     (case roomRef h of
        Some r \<Rightarrow>
          (if connectionStatus h = Connected then emit (RoomSent r type data) h
           else emit (ConsoleWarn ''Cannot send message: room not connected'') h)
      | None \<Rightarrow> emit (ConsoleWarn ''Cannot send message: room not connected'') h)"

definition disconnect :: "hook \<Rightarrow> hook" where
  "disconnect h = cleanup (h\<lparr>shouldReconnectRef := False, connectionStatus := Disconnected\<rparr>)"

definition manualReconnect :: "real \<Rightarrow> hook \<Rightarrow> hook" where
  "manualReconnect now h =
     (let h1 = h\<lparr>reconnectAttemptsRef := 0, connectionFailureCountRef := 0,
                  shouldReconnectRef := True\<rparr>
      in add_task (Timer (now + 500) ManualReconnectTimer) (cleanup h1))"

text \<open>The effect that runs on mount, and its clean-up on unmount.\<close>

definition mount :: "ColyseusHookOptions \<Rightarrow> real \<Rightarrow> hook \<Rightarrow> hook" where
  "mount opts now h = connect opts now (h\<lparr>shouldReconnectRef := True\<rparr>)"

definition unmount :: "hook \<Rightarrow> hook" where
  "unmount h = cleanup h"

subsection \<open>Handlers registered on a joined room\<close>

definition room_onError :: "int \<Rightarrow> string \<Rightarrow> hook \<Rightarrow> hook" where
  "room_onError code msg h =
     h\<lparr>error := Some (''Room error: '' @ msg @ '' ('' @ number_to_string code @ '')''),
       connectionStatus := Error\<rparr>"

definition room_onLeave :: "ColyseusHookOptions \<Rightarrow> real \<Rightarrow> int \<Rightarrow> hook \<Rightarrow> hook" where
  "room_onLeave opts now code h =
     (let h1 = h\<lparr>connectionStatus := Disconnected, roomRef := None, room := None\<rparr>
      in if autoReconnect opts \<and> shouldReconnectRef h1 \<and> code \<noteq> 1000 \<and>
            reconnectAttemptsRef h1 < maxReconnectAttempts opts
         then scheduleReconnect opts now h1 else h1)"

definition spread :: "ClientState option \<Rightarrow> ClientState" where
  "spread prev =
     (case prev of
        Some s \<Rightarrow> s
      | None \<Rightarrow> \<lparr>cs_players = None, cs_gameStatus = None, cs_playerCount = None\<rparr>)"

fun room_onMessage :: "message \<Rightarrow> hook \<Rightarrow> hook" where
  "room_onMessage (Welcome sid nm rid) h = h"
| "room_onMessage (Chat sid msg ts) h = h\<lparr>messages := messages h @ [(sid, msg, ts)]\<rparr>"
| "room_onMessage (StateUpdate pc gs n) h =
     h\<lparr>state := Some ((spread (state h))\<lparr>cs_playerCount := Some pc, cs_gameStatus := Some gs\<rparr>)\<rparr>"
| "room_onMessage (PlayerUpdate ps) h =
     h\<lparr>state := Some ((spread (state h))\<lparr>cs_players := Some ps\<rparr>)\<rparr>"
| "room_onMessage (HexUpdate hq hr sel col nm) h = emit (EventBusEmit hq hr sel col) h"

subsection \<open>Runs of the hook on a simulated clock\<close>

text \<open>
  An event is something the hook's surroundings do: React mounts or unmounts it, a timer
  fires, \<open>joinOrCreate\<close> settles, the user calls one of the returned functions, a joined
  room reports. An event carries the reading of the clock; time does not run backwards, a
  timer fires no earlier than it is due, and only what is pending or registered can happen.
\<close>

datatype event =
    Mount
  | Unmount
  | Fire nat
  | JoinResolved nat RoomInstance
  | JoinRejected nat js_error
  | SendMessage string string
  | Disconnect
  | ManualReconnect
  | RoomError RoomInstance int string
  | RoomLeave RoomInstance int
  | RoomMessage RoomInstance message

fun dispatch :: "ColyseusHookOptions \<Rightarrow> real \<Rightarrow> event \<Rightarrow> hook \<Rightarrow> hook option" where
  "dispatch opts now Mount h = Some (mount opts now h)"
| "dispatch opts now Unmount h = Some (unmount h)"
| "dispatch opts now (Fire i) h =
     (case map_of (pending h) i of
        Some (Timer due k) \<Rightarrow>
          (if due \<le> now then Some (fire_timer opts now k (remove_task i h)) else None)
      | _ \<Rightarrow> None)"
| "dispatch opts now (JoinResolved i roomInstance) h =
     (case map_of (pending h) i of
        Some JoinOrCreate \<Rightarrow> Some (connect_resolved roomInstance (remove_task i h))
      | _ \<Rightarrow> None)"
| "dispatch opts now (JoinRejected i err) h =
     (case map_of (pending h) i of
        Some JoinOrCreate \<Rightarrow> Some (connect_rejected opts now err (remove_task i h))
      | _ \<Rightarrow> None)"
| "dispatch opts now (SendMessage type data) h = Some (sendMessage type data h)"
| "dispatch opts now Disconnect h = Some (disconnect h)"
| "dispatch opts now ManualReconnect h = Some (manualReconnect now h)"
| "dispatch opts now (RoomError r code msg) h =
     (if r \<in> set (listening h) then Some (room_onError code msg h) else None)"
| "dispatch opts now (RoomLeave r code) h =
     (if r \<in> set (listening h)
      then Some (room_onLeave opts now code (h\<lparr>listening := removeAll r (listening h)\<rparr>))
      else None)"
| "dispatch opts now (RoomMessage r m) h =
     (if r \<in> set (listening h) then Some (room_onMessage m h) else None)"

definition step :: "ColyseusHookOptions \<Rightarrow> hook \<Rightarrow> real \<times> event \<Rightarrow> hook option" where
  "step opts h te =
     (if fst te < clock h then None else dispatch opts (fst te) (snd te) (h\<lparr>clock := fst te\<rparr>))"

fun run :: "ColyseusHookOptions \<Rightarrow> hook \<Rightarrow> (real \<times> event) list \<Rightarrow> hook option" where
  "run opts h [] = Some h"
| "run opts h (te # tes) = (case step opts h te of None \<Rightarrow> None | Some h' \<Rightarrow> run opts h' tes)"

text \<open>The events that happen without the user: a timer fires, a connection attempt fails.\<close>

fun automatic :: "real \<times> event \<Rightarrow> bool" where
  "automatic (t, Fire i) = True"
| "automatic (t, JoinRejected i err) = True"
| "automatic (t, e) = False"

subsection \<open>Predicates on hooks and runs\<close>

text \<open>
  A connect request is admitted when it passes the four guards of \<open>connect\<close>: no attempt
  in flight, reconnection not switched off, at least 5000 ms since the last attempt
  started, fewer than three failures in a row.
\<close>

definition admitted :: "real \<Rightarrow> hook \<Rightarrow> bool" where
  "admitted now h =
     (\<not> isConnectingRef h \<and> shouldReconnectRef h \<and> 5000 \<le> now - lastConnectionAttemptRef h \<and>
      connectionFailureCountRef h < 3)"


text \<open>
  The invariant of a hook that is left to itself after mounting: the event loop holds at
  most one task, and the attempts started are counted by the failures.
\<close>

definition in_flight :: "hook \<Rightarrow> bool" where
  "in_flight h =
     (isConnectingRef h \<and> reconnectTimeoutRef h = None \<and>
      attemptsStarted h = Suc (connectionFailureCountRef h) \<and> connectionFailureCountRef h < 3)"

definition auto_inv :: "hook \<Rightarrow> bool" where
  "auto_inv h =
     (shouldReconnectRef h \<and>
      ((pending h = [] \<and> \<not> isConnectingRef h \<and> attemptsStarted h \<le> 3) \<or>
       (\<exists>i. pending h = [(i, JoinOrCreate)] \<and> in_flight h) \<or>
       (\<exists>i d. pending h = [(i, Timer d BackoffDelay)] \<and> in_flight h) \<or>
       (\<exists>i d. pending h = [(i, Timer d ReconnectTimer)] \<and> reconnectTimeoutRef h = Some i \<and>
          \<not> isConnectingRef h \<and> attemptsStarted h = connectionFailureCountRef h \<and>
          connectionFailureCountRef h \<le> 3) \<or>
       (\<exists>i d. pending h = [(i, Timer d CircuitBreakerReset)] \<and> \<not> isConnectingRef h \<and>
          attemptsStarted h \<le> 3)))"

text \<open>
  Examples. With auto-reconnect on and the default interval, the server refuses three
  attempts in a row: the first attempt at once, the second and third after the reconnect
  interval and the backoff delay; the fourth request meets the circuit breaker and leaves
  the hook in the state \<open>tripped\<close>. \<open>failed_once\<close> is the hook with the default options after
  its first attempt was refused.
\<close>

definition auto_options :: ColyseusHookOptions where
  "auto_options = \<lparr>autoReconnect = True, reconnectInterval = 10000, maxReconnectAttempts = 3\<rparr>"

definition three_failures :: "(real \<times> event) list" where
  "three_failures =
     [(1000100, JoinRejected 0 (ErrorObj ''ERR_CONNECTION_REFUSED'')),
      (1010100, Fire 1),
      (1013100, Fire 2),
      (1013200, JoinRejected 3 (ErrorObj ''ERR_CONNECTION_REFUSED'')),
      (1023200, Fire 4),
      (1027700, Fire 5),
      (1027800, JoinRejected 6 (ErrorObj ''ERR_CONNECTION_REFUSED'')),
      (1037800, Fire 7)]"

definition tripped :: hook where
  "tripped =
     \<lparr>room = None, state = None, connectionStatus = Reconnecting,
      error = Some ''Connection refused - server may be down'',
      sessionId = None, messages = [], clientRef = True, roomRef = None,
      reconnectTimeoutRef = None, reconnectAttemptsRef = 3,
      isConnectingRef = False, shouldReconnectRef = True,
      lastConnectionAttemptRef = 1023200, connectionFailureCountRef = 3,
      clock = 1037800, pending = [(8, Timer 1067800 CircuitBreakerReset)],
      nextId = 9, listening = [],
      effects = [JoinOrCreateCalled, JoinOrCreateCalled, JoinOrCreateCalled],
      attemptsStarted = 3\<rparr>"



section \<open>Properties of the room server\<close>

declare decimal_digits.simps [simp del]

subsection \<open>MapSchema\<close>

lemma map_get_set: "map_get (map_set k v m) k' = (if k' = k then Some v else map_get m k')"
  by (induction m) auto

lemma map_get_delete: "map_get (map_delete k m) k' = (if k' = k then None else map_get m k')"
  by (induction m) auto

lemma map_get_None_iff: "map_get m k = None \<longleftrightarrow> k \<notin> set (keys m)"
  by (induction m) (force simp: keys_def)+

lemma keys_set: "keys (map_set k v m) = (if k \<in> set (keys m) then keys m else keys m @ [k])"
  by (induction m) (force simp: keys_def)+

lemma keys_delete: "keys (map_delete k m) = removeAll k (keys m)"
  by (induction m) (auto simp: keys_def)

lemma size_set:
  "map_size (map_set k v m) = (if k \<in> set (keys m) then map_size m else Suc (map_size m))"
  by (induction m) (force simp: keys_def map_size_def)+

lemma delete_absent: "k \<notin> set (keys m) \<Longrightarrow> map_delete k m = m"
  by (induction m) (force simp: keys_def)+

lemma delete_present:
  "distinct (keys m) \<Longrightarrow> k \<in> set (keys m) \<Longrightarrow> Suc (map_size (map_delete k m)) = map_size m"
proof (induction m)
  case Nil
  then show ?case by (simp add: keys_def)
next
  case (Cons a m)
  obtain k' v' where a: "a = (k', v')" by (cases a)
  show ?case
  proof (cases "k' = k")
    case True
    then have "k \<notin> set (keys m)" using Cons.prems(1) a by (simp add: keys_def)
    then show ?thesis using True a by (simp add: delete_absent map_size_def)
  next
    case False
    then have "k \<in> set (keys m)" "distinct (keys m)"
      using Cons.prems a by (auto simp: keys_def)
    then show ?thesis using Cons.IH False a by (simp add: map_size_def)
  qed
qed

lemma size_delete:
  "distinct (keys m) \<Longrightarrow>
   map_size (map_delete k m) = (if k \<in> set (keys m) then map_size m - 1 else map_size m)"
  using delete_present[of m k] by (auto simp: delete_absent)

lemma size_card: "distinct (keys m) \<Longrightarrow> map_size m = card (set (keys m))"
  using distinct_card[of "map fst m"] by (simp add: map_size_def keys_def)

subsection \<open>Intents of an unknown sender, and move\<close>

text \<open>
  Claim C8. A move or status intent whose sender has no participant in the room returns
  the state as it was and sends nothing. A move intent of a participant sets that
  participant's position to the coordinates of the message and the status to moving,
  changes no other participant and nothing else of the state, and sends nothing.
\<close>

theorem unknown_sender_dropped:
  "(map_get (players st) sid = None \<longrightarrow>
      move_handler st sid mx my = (st, []) \<and> status_handler st sid s = (st, [])) \<and>
   (\<forall>player. map_get (players st) sid = Some player \<longrightarrow>
      snd (move_handler st sid mx my) = [] \<and>
      map_get (players (fst (move_handler st sid mx my))) sid =
        Some (player\<lparr>p_x := mx, p_y := my, p_status := ''moving''\<rparr>) \<and>
      (\<forall>other. other \<noteq> sid \<longrightarrow>
         map_get (players (fst (move_handler st sid mx my))) other = map_get (players st) other) \<and>
      keys (players (fst (move_handler st sid mx my))) = keys (players st) \<and>
      hexGrid (fst (move_handler st sid mx my)) = hexGrid st \<and>
      gameStatus (fst (move_handler st sid mx my)) = gameStatus st \<and>
      playerCount (fst (move_handler st sid mx my)) = playerCount st)"
  by (auto simp: move_handler_def status_handler_def map_get_set keys_set
      map_get_None_iff[symmetric])

theorem unknown_sender_dropped_witness:
  "move_handler demo_room ''ghost'' 3 4 = (demo_room, []) \<and>
   status_handler demo_room ''ghost'' ''active'' = (demo_room, []) \<and>
   snd (move_handler demo_room ''P2'' 3 4) = [] \<and>
   map_get (players (fst (move_handler demo_room ''P2'' 3 4))) ''P2'' =
     Some \<lparr>p_name = ''Bob'', p_x = 3, p_y = 4, p_status = ''moving'', p_joinedAt = 20,
           p_color = ''#ef4444''\<rparr> \<and>
   map_get (players (fst (move_handler demo_room ''P2'' 3 4))) ''P1'' =
     map_get (players demo_room) ''P1''"
  using unknown_sender_dropped[of demo_room "''ghost''" 3 4 "''active''"]
    unknown_sender_dropped[of demo_room "''P2''" 3 4 "''active''"]
  by (simp add: demo_room_def)

subsection \<open>hexSelect\<close>

text \<open>
  Claim C1. A hexSelect intent for a cell that exists, sent by a participant of the room:
  when the sender occupies the cell, the cell's occupant and colour become empty;
  otherwise the occupant becomes the sender and the colour the sender's colour, whoever
  occupied the cell before. No other cell and nothing else of the state changes, and one
  hexUpdate is broadcast with the coordinates, the new occupant and colour, and the
  sender's name when the cell is now occupied, the empty string when it is not. When the
  cell or the sender's participant does not exist, the state is returned as it was and
  nothing is broadcast.
\<close>

theorem hexSelect_toggle_or_steal:
  "(\<forall>cell player.
      map_get (hexGrid st) (hexKey mq mr) = Some cell \<longrightarrow>
      map_get (players st) sid = Some player \<longrightarrow>
      (let st' = fst (hexSelect_handler st sid mq mr);
           occupant = (if h_selectedBy cell = sid then [] else sid);
           colour = (if h_selectedBy cell = sid then [] else p_color player)
       in map_get (hexGrid st') (hexKey mq mr) =
            Some (cell\<lparr>h_selectedBy := occupant, h_color := colour\<rparr>) \<and>
          (\<forall>k. k \<noteq> hexKey mq mr \<longrightarrow> map_get (hexGrid st') k = map_get (hexGrid st) k) \<and>
          keys (hexGrid st') = keys (hexGrid st) \<and>
          players st' = players st \<and> gameStatus st' = gameStatus st \<and>
          playerCount st' = playerCount st \<and>
          snd (hexSelect_handler st sid mq mr) =
            [Broadcast (HexUpdate mq mr occupant colour
               (if occupant = [] then [] else p_name player))])) \<and>
   (map_get (hexGrid st) (hexKey mq mr) = None \<or> map_get (players st) sid = None \<longrightarrow>
      hexSelect_handler st sid mq mr = (st, []))"
  by (auto simp: hexSelect_handler_def Let_def map_get_set keys_set map_get_None_iff[symmetric]
      split: option.splits)

lemma hexKey_examples: "hexKey 0 0 = ''0,0''" "hexKey 7 7 = ''7,7''" "hexKey (- 12) 305 = ''-12,305''"
  by (simp_all add: hexKey_def number_to_string_def decimal_digits.simps digit_char_def)

theorem hexSelect_toggle_or_steal_witness:
  "map_get (hexGrid (fst (hexSelect_handler demo_room ''P2'' 0 0))) ''0,0'' =
     Some \<lparr>h_q = 0, h_r = 0, h_selectedBy = ''P2'', h_color = ''#ef4444''\<rparr> \<and>
   snd (hexSelect_handler demo_room ''P2'' 0 0) =
     [Broadcast (HexUpdate 0 0 ''P2'' ''#ef4444'' ''Bob'')] \<and>
   map_get (hexGrid (fst (hexSelect_handler demo_room ''P1'' 0 0))) ''0,0'' =
     Some \<lparr>h_q = 0, h_r = 0, h_selectedBy = [], h_color = []\<rparr> \<and>
   snd (hexSelect_handler demo_room ''P1'' 0 0) = [Broadcast (HexUpdate 0 0 [] [] [])] \<and>
   map_get (hexGrid (fst (hexSelect_handler (fst (hexSelect_handler demo_room ''P2'' 0 0))
      ''P1'' 0 0))) ''0,0'' =
     Some \<lparr>h_q = 0, h_r = 0, h_selectedBy = ''P1'', h_color = ''#3b82f6''\<rparr> \<and>
   hexSelect_handler demo_room ''ghost'' 0 0 = (demo_room, []) \<and>
   hexSelect_handler demo_room ''P1'' 7 7 = (demo_room, [])"
  using hexSelect_toggle_or_steal[of demo_room 0 0 "''P2''"]
    hexSelect_toggle_or_steal[of demo_room 0 0 "''P1''"]
    hexSelect_toggle_or_steal[of "fst (hexSelect_handler demo_room ''P2'' 0 0)" 0 0 "''P1''"]
    hexSelect_toggle_or_steal[of demo_room 0 0 "''ghost''"]
    hexSelect_toggle_or_steal[of demo_room 7 7 "''P1''"]
  by (simp add: demo_room_def hexKey_examples Let_def)

text \<open>
  The scenario of the specification: P1 joins and selects cell (0,0), P2 joins and selects
  the same cell, P1 leaves. One participant is left, the room is waiting, and the cell
  belongs to P2 in the second colour of the palette.
\<close>

lemma end_to_end_scenario:
  "room_run ''room''
     (onCreate [(''0,0'', \<lparr>h_q = 0, h_r = 0, h_selectedBy = [], h_color = []\<rparr>)])
     [Join ''P1'' None 10, HexSelect ''P1'' 0 0, Join ''P2'' None 20, HexSelect ''P2'' 0 0,
      Leave ''P1''] =
   \<lparr>players =
      [(''P2'', \<lparr>p_name = ''Player_P2'', p_x = 0, p_y = 0, p_status = ''idle'', p_joinedAt = 20,
                 p_color = ''#ef4444''\<rparr>)],
    hexGrid = [(''0,0'', \<lparr>h_q = 0, h_r = 0, h_selectedBy = ''P2'', h_color = ''#ef4444''\<rparr>)],
    gameStatus = ''waiting'', playerCount = 1\<rparr>"
  by (simp add: onCreate_def onJoin_def onLeave_def hexSelect_handler_def Let_def map_size_def
      playerColors_def join_name_def hexKey_examples)

subsection \<open>Leave\<close>

text \<open>
  Claim C9. A leave deletes the entry of the leaving identity and no other: every other
  participant's entry is as before. The count becomes the size of the roster, the status
  becomes waiting when the count is below two and is kept otherwise. The grid is not
  touched: a cell selected by the participant who left stays selected by that identity.
\<close>

theorem leave_frame:
  "(let st' = fst (onLeave st sid)
    in players st' = map_delete sid (players st) \<and>
       map_get (players st') sid = None \<and>
       (\<forall>other. other \<noteq> sid \<longrightarrow> map_get (players st') other = map_get (players st) other) \<and>
       keys (players st') = removeAll sid (keys (players st)) \<and>
       hexGrid st' = hexGrid st \<and>
       playerCount st' = map_size (players st') \<and>
       gameStatus st' = (if playerCount st' < 2 then ''waiting'' else gameStatus st))"
  by (simp add: onLeave_def Let_def map_get_delete keys_delete)

theorem leave_frame_witness:
  "map_get (players (fst (onLeave demo_room ''P1''))) ''P1'' = None \<and>
   map_get (players (fst (onLeave demo_room ''P1''))) ''P2'' = map_get (players demo_room) ''P2'' \<and>
   map_option h_selectedBy (map_get (hexGrid (fst (onLeave demo_room ''P1''))) ''0,0'') = Some ''P1'' \<and>
   playerCount (fst (onLeave demo_room ''P1'')) = 1 \<and>
   gameStatus (fst (onLeave demo_room ''P1'')) = ''waiting''"
  using leave_frame[of demo_room "''P1''"]
  by (simp add: demo_room_def Let_def map_size_def)

subsection \<open>Count and status\<close>

lemma players_onJoin:
  "players (fst (onJoin roomId st sid opt now)) =
     map_set sid \<lparr>p_name = join_name opt sid, p_x = 0, p_y = 0, p_status = ''idle'',
                  p_joinedAt = now, p_color = playerColors ! (map_size (players st) mod 8)\<rparr>
       (players st)"
  by (simp add: onJoin_def Let_def playerColors_def)

lemma players_onLeave: "players (fst (onLeave st sid)) = map_delete sid (players st)"
  by (simp add: onLeave_def Let_def)

lemma keys_step:
  "keys (players (fst (room_step roomId st op))) =
     (case op of
        Join sid opt now \<Rightarrow>
          (if sid \<in> set (keys (players st)) then keys (players st) else keys (players st) @ [sid])
      | Leave sid \<Rightarrow> removeAll sid (keys (players st))
      | _ \<Rightarrow> keys (players st))"
  by (cases op)
     (auto simp: players_onJoin players_onLeave keys_set keys_delete move_handler_def
        status_handler_def chat_handler_def hexSelect_handler_def Let_def map_get_None_iff
        split: option.splits)

lemma distinct_step:
  "distinct (keys (players st)) \<Longrightarrow> distinct (keys (players (fst (room_step roomId st op))))"
  by (simp add: keys_step distinct_removeAll split: room_op.splits)

lemma inv_onJoin: "room_inv (fst (onJoin roomId st sid opt now))"
  by (simp add: onJoin_def Let_def room_inv_def)

lemma inv_onLeave:
  assumes "room_inv st" "distinct (keys (players st))"
  shows "room_inv (fst (onLeave st sid))"
proof -
  have "map_size (map_delete sid (players st)) \<le> map_size (players st)"
    using assms(2) by (simp add: size_delete)
  then show ?thesis using assms(1)
    by (auto simp: onLeave_def Let_def room_inv_def)
qed

lemma size_step_other:
  "map_size (players (fst (move_handler st sid mx my))) = map_size (players st)"
  "map_size (players (fst (status_handler st sid s))) = map_size (players st)"
  by (auto simp: move_handler_def status_handler_def size_set map_get_None_iff
      split: option.splits)

lemma inv_step:
  assumes "room_inv st" "distinct (keys (players st))"
  shows "room_inv (fst (room_step roomId st op))"
proof (cases op)
  case (Join sid opt now)
  then show ?thesis by (simp add: inv_onJoin)
next
  case (Leave sid)
  then show ?thesis using assms by (simp add: inv_onLeave)
next
  case (Move sid mx my)
  then show ?thesis using assms(1) size_step_other(1)[of st sid mx my]
    by (auto simp: room_inv_def move_handler_def split: option.splits)
next
  case (ChatMsg sid msg now)
  then show ?thesis using assms(1) by (simp add: chat_handler_def)
next
  case (Status sid s)
  then show ?thesis using assms(1) size_step_other(2)[of st sid s]
    by (auto simp: room_inv_def status_handler_def split: option.splits)
next
  case (HexSelect sid mq mr)
  then show ?thesis using assms(1)
    by (auto simp: room_inv_def hexSelect_handler_def Let_def split: option.splits)
qed

lemma inv_run:
  "room_inv st \<Longrightarrow> distinct (keys (players st)) \<Longrightarrow>
   room_inv (room_run roomId st ops) \<and> distinct (keys (players (room_run roomId st ops)))"
  by (induction ops arbitrary: st) (auto simp: inv_step distinct_step)

lemma inv_onCreate: "room_inv (onCreate grid)" "distinct (keys (players (onCreate grid)))"
  by (simp_all add: room_inv_def onCreate_def map_size_def keys_def)

lemma count_run:
  "room_inv st \<Longrightarrow> distinct (keys (players st)) \<Longrightarrow> valid_ops (keys (players st)) ops \<Longrightarrow>
   playerCount (room_run roomId st ops) + leaves ops = playerCount st + joins ops"
proof (induction ops arbitrary: st)
  case Nil
  then show ?case by simp
next
  case (Cons op ops)
  let ?st = "fst (room_step roomId st op)"
  have i: "room_inv ?st" "distinct (keys (players ?st))"
    using Cons.prems by (simp_all add: inv_step distinct_step)
  have c: "playerCount ?st = map_size (players ?st)" "playerCount st = map_size (players st)"
    using i(1) Cons.prems(1) by (simp_all add: room_inv_def)
  show ?case
  proof (cases op)
    case (Join sid opt now)
    then have v: "valid_ops (keys (players ?st)) ops" "sid \<notin> set (keys (players st))"
      using Cons.prems(3) keys_step[of roomId st op] by simp_all
    have "playerCount ?st = Suc (playerCount st)"
      using c v(2) Join by (simp add: players_onJoin size_set)
    then show ?thesis using Cons.IH[OF i v(1)] Join by simp
  next
    case (Leave sid)
    then have v: "valid_ops (keys (players ?st)) ops" "sid \<in> set (keys (players st))"
      using Cons.prems(3) keys_step[of roomId st op] by simp_all
    have "Suc (playerCount ?st) = playerCount st"
      using c v(2) Leave Cons.prems(2) by (simp add: players_onLeave delete_present)
    then show ?thesis using Cons.IH[OF i v(1)] Leave by simp
  next
    case (Move sid mx my)
    then have v: "valid_ops (keys (players ?st)) ops"
      using Cons.prems(3) keys_step[of roomId st op] by simp
    have "playerCount ?st = playerCount st"
      using c Move by (simp add: size_step_other)
    then show ?thesis using Cons.IH[OF i v] Move by simp
  next
    case (ChatMsg sid msg now)
    then have v: "valid_ops (keys (players ?st)) ops" "playerCount ?st = playerCount st"
      using Cons.prems(3) keys_step[of roomId st op] by (simp_all add: chat_handler_def)
    then show ?thesis using Cons.IH[OF i v(1)] ChatMsg by simp
  next
    case (Status sid s)
    then have v: "valid_ops (keys (players ?st)) ops"
      using Cons.prems(3) keys_step[of roomId st op] by simp
    have "playerCount ?st = playerCount st"
      using c Status by (simp add: size_step_other)
    then show ?thesis using Cons.IH[OF i v] Status by simp
  next
    case (HexSelect sid mq mr)
    then have v: "valid_ops (keys (players ?st)) ops" "playerCount ?st = playerCount st"
      using Cons.prems(3) keys_step[of roomId st op]
      by (auto simp: hexSelect_handler_def Let_def split: option.splits)
    then show ?thesis using Cons.IH[OF i v(1)] HexSelect by simp
  qed
qed

text \<open>
  Claim C3. Start from a fresh room and apply any list of calls. After every call (that
  is, after every prefix \<open>take n ops\<close> of the list) the stored count is the size of the
  roster, whose keys are distinct, and the stored status is active when the count is at
  least two and waiting otherwise. When the identities do not overlap (every join is by
  an identity not in the room, every leave by one that is), the leaves are at most as
  many as the joins and the count at the end is the number of joins minus the number of
  leaves.
\<close>

theorem count_and_status_invariant:
  "room_inv (room_run roomId (onCreate grid) (take n ops)) \<and>
   distinct (keys (players (room_run roomId (onCreate grid) (take n ops)))) \<and>
   (valid_ops [] ops \<longrightarrow>
      leaves ops \<le> joins ops \<and>
      playerCount (room_run roomId (onCreate grid) ops) = joins ops - leaves ops)"
proof -
  have "playerCount (room_run roomId (onCreate grid) ops) + leaves ops = joins ops"
    if "valid_ops [] ops"
    using count_run[OF inv_onCreate, of grid ops roomId] that
    by (simp add: onCreate_def keys_def)
  then show ?thesis
    using inv_run[OF inv_onCreate, of roomId grid "take n ops"] by auto
qed

theorem count_and_status_invariant_witness:
  "valid_ops [] [Join ''A'' None 1, Join ''B'' (Some ''Bob'') 2, Move ''A'' 3 4, Leave ''A''] \<and>
   playerCount (room_run ''room'' (onCreate [])
     [Join ''A'' None 1, Join ''B'' (Some ''Bob'') 2, Move ''A'' 3 4, Leave ''A'']) = 1 \<and>
   gameStatus (room_run ''room'' (onCreate [])
     [Join ''A'' None 1, Join ''B'' (Some ''Bob'') 2, Move ''A'' 3 4, Leave ''A'']) = ''waiting'' \<and>
   gameStatus (room_run ''room'' (onCreate [])
     (take 2 [Join ''A'' None 1, Join ''B'' (Some ''Bob'') 2, Move ''A'' 3 4, Leave ''A''])) =
     ''active''"
proof -
  let ?ops = "[Join ''A'' None 1, Join ''B'' (Some ''Bob'') 2, Move ''A'' 3 4, Leave ''A'']"
  have v: "valid_ops [] ?ops" by simp
  have j: "joins ?ops - leaves ?ops = 1" by simp
  have "playerCount (room_run ''room'' (onCreate []) ?ops) = 1"
    using count_and_status_invariant[of "''room''" "[]" 4 ?ops] v j by simp
  moreover have "gameStatus (room_run ''room'' (onCreate []) ?ops) = ''waiting''"
    using count_and_status_invariant[of "''room''" "[]" 4 ?ops] calculation
    by (simp add: room_inv_def)
  moreover have "gameStatus (room_run ''room'' (onCreate []) (take 2 ?ops)) = ''active''"
    using count_and_status_invariant[of "''room''" "[]" 2 ?ops]
    by (simp add: room_inv_def onCreate_def onJoin_def Let_def map_size_def)
  ultimately show ?thesis using v by simp
qed

subsection \<open>Colours\<close>

lemma step_join_op:
  "room_step roomId st (join_op nm tm sid) = onJoin roomId st sid (nm sid) (tm sid)"
  by (simp add: join_op_def)

lemma get_onJoin_other:
  "sid' \<noteq> sid \<Longrightarrow>
   map_get (players (fst (onJoin roomId st sid opt now))) sid' = map_get (players st) sid'"
  by (simp add: players_onJoin map_get_set)

lemma get_joins_other:
  "sid' \<notin> set sids \<Longrightarrow>
   map_get (players (room_run roomId st (map (join_op nm tm) sids))) sid' =
     map_get (players st) sid'"
  by (induction sids arbitrary: st) (auto simp: step_join_op get_onJoin_other)

lemma color_onJoin:
  "map_option p_color (map_get (players (fst (onJoin roomId st sid opt now))) sid) =
     Some (playerColors ! (map_size (players st) mod 8))"
  by (simp add: players_onJoin map_get_set)

lemma color_joins:
  "distinct (keys (players st) @ sids) \<Longrightarrow> k < length sids \<Longrightarrow>
   map_option p_color
     (map_get (players (room_run roomId st (map (join_op nm tm) sids))) (sids ! k)) =
     Some (playerColors ! ((map_size (players st) + k) mod 8))"
proof (induction sids arbitrary: st k)
  case Nil
  then show ?case by simp
next
  case (Cons sid sids)
  let ?st = "fst (onJoin roomId st sid (nm sid) (tm sid))"
  have fresh: "sid \<notin> set (keys (players st))" "sid \<notin> set sids"
    using Cons.prems(1) by auto
  have ks: "keys (players ?st) = keys (players st) @ [sid]"
    using fresh(1) by (simp add: players_onJoin keys_set)
  have sz: "map_size (players ?st) = Suc (map_size (players st))"
    using fresh(1) by (simp add: players_onJoin size_set)
  show ?case
  proof (cases k)
    case 0
    then show ?thesis
      using get_joins_other[OF fresh(2), of roomId ?st nm tm] color_onJoin[of roomId st sid]
      by (simp add: step_join_op)
  next
    case (Suc j)
    have d: "distinct (keys (players ?st) @ sids)"
      using Cons.prems(1) ks by auto
    have j: "j < length sids" using Cons.prems(2) Suc by simp
    show ?thesis using Cons.IH[OF d j] Suc sz by (simp add: step_join_op)
  qed
qed

text \<open>
  Claim C2, as stated: the k-th participant ever to join receives the k-th colour of the
  palette (modulo 8), whenever others leave. It fails: A and B join, A leaves, C joins.
  C is the participant number 2, and receives colour number 1, which B holds as well.
\<close>

theorem color_by_join_order_counterexample:
  "map_option p_color
     (map_get (players (room_run ''room'' (onCreate [])
        [Join ''A'' None 0, Join ''B'' None 1, Leave ''A'', Join ''C'' None 2])) ''C'') =
     Some (playerColors ! 1) \<and>
   map_option p_color
     (map_get (players (room_run ''room'' (onCreate [])
        [Join ''A'' None 0, Join ''B'' None 1, Leave ''A'', Join ''C'' None 2])) ''B'') =
     Some (playerColors ! 1) \<and>
   playerColors ! 1 \<noteq> playerColors ! (2 mod 8)"
  by (simp add: onCreate_def onJoin_def onLeave_def Let_def map_size_def playerColors_def)

text \<open>
  Claim C2, amended. A participant who joins receives the colour of the palette at the
  number of participants in the room at that moment, modulo 8. When no participant has
  left (the run is a list of joins by distinct identities into a fresh room), that number
  is the join order: the k-th participant to join holds colour k modulo 8.
\<close>

theorem color_by_current_count:
  "map_option p_color (map_get (players (fst (onJoin roomId st sid opt now))) sid) =
     Some (playerColors ! (map_size (players st) mod 8)) \<and>
   length playerColors = 8 \<and>
   (distinct sids \<and> k < length sids \<longrightarrow>
      map_option p_color
        (map_get (players (room_run roomId (onCreate grid) (map (join_op nm tm) sids)))
           (sids ! k)) =
        Some (playerColors ! (k mod 8)))"
  using color_joins[of "onCreate grid" sids k roomId nm tm] color_onJoin[of roomId st sid opt now]
  by (simp add: onCreate_def keys_def map_size_def playerColors_def)

theorem color_by_current_count_witness:
  "map_option p_color
     (map_get (players (fst (onJoin ''room'' demo_room ''P3'' None 30))) ''P3'') =
     Some ''#10b981'' \<and>
   map_option p_color
     (map_get (players (room_run ''room'' (onCreate [])
        (map (join_op (\<lambda>s. None) (\<lambda>s. 0)) [''A'', ''B'', ''C'', ''D'']))) ''D'') =
     Some ''#f59e0b''"
  using color_by_current_count[of "''room''" demo_room "''P3''" None 30
      "[''A'', ''B'', ''C'', ''D'']" 3 "[]" "\<lambda>s. None" "\<lambda>s. 0"]
  by (simp add: demo_room_def map_size_def playerColors_def)


section \<open>Properties of the connection hook\<close>

subsection \<open>What each function leaves alone\<close>

lemma frame_add_task [simp]:
  "lastConnectionAttemptRef (add_task t h) = lastConnectionAttemptRef h"
  "attemptsStarted (add_task t h) = attemptsStarted h"
  "connectionFailureCountRef (add_task t h) = connectionFailureCountRef h"
  "reconnectAttemptsRef (add_task t h) = reconnectAttemptsRef h"
  "shouldReconnectRef (add_task t h) = shouldReconnectRef h"
  "isConnectingRef (add_task t h) = isConnectingRef h"
  "reconnectTimeoutRef (add_task t h) = reconnectTimeoutRef h"
  "connectionStatus (add_task t h) = connectionStatus h"
  "effects (add_task t h) = effects h"
  "pending (add_task t h) = pending h @ [(nextId h, t)]"
  by (simp_all add: add_task_def)

lemma frame_remove_task [simp]:
  "lastConnectionAttemptRef (remove_task i h) = lastConnectionAttemptRef h"
  "attemptsStarted (remove_task i h) = attemptsStarted h"
  "connectionFailureCountRef (remove_task i h) = connectionFailureCountRef h"
  "reconnectAttemptsRef (remove_task i h) = reconnectAttemptsRef h"
  "shouldReconnectRef (remove_task i h) = shouldReconnectRef h"
  "isConnectingRef (remove_task i h) = isConnectingRef h"
  "reconnectTimeoutRef (remove_task i h) = reconnectTimeoutRef h"
  "connectionStatus (remove_task i h) = connectionStatus h"
  "effects (remove_task i h) = effects h"
  "pending (remove_task i h) = filter (\<lambda>p. fst p \<noteq> i) (pending h)"
  by (simp_all add: remove_task_def)

lemma frame_emit [simp]:
  "lastConnectionAttemptRef (emit e h) = lastConnectionAttemptRef h"
  "attemptsStarted (emit e h) = attemptsStarted h"
  "connectionFailureCountRef (emit e h) = connectionFailureCountRef h"
  "reconnectAttemptsRef (emit e h) = reconnectAttemptsRef h"
  "shouldReconnectRef (emit e h) = shouldReconnectRef h"
  "isConnectingRef (emit e h) = isConnectingRef h"
  "reconnectTimeoutRef (emit e h) = reconnectTimeoutRef h"
  "connectionStatus (emit e h) = connectionStatus h"
  "effects (emit e h) = effects h @ [e]"
  "pending (emit e h) = pending h"
  "nextId (emit e h) = nextId h"
  by (simp_all add: emit_def)

lemma frame_cleanup:
  "lastConnectionAttemptRef (cleanup h) = lastConnectionAttemptRef h"
  "attemptsStarted (cleanup h) = attemptsStarted h"
  "connectionFailureCountRef (cleanup h) = connectionFailureCountRef h"
  "reconnectAttemptsRef (cleanup h) = reconnectAttemptsRef h"
  "shouldReconnectRef (cleanup h) = False"
  "isConnectingRef (cleanup h) = False"
  "reconnectTimeoutRef (cleanup h) = None"
  "connectionStatus (cleanup h) = connectionStatus h"
  by (simp_all add: cleanup_def Let_def split: option.splits)

lemma frame_connect_join:
  "lastConnectionAttemptRef (connect_join h) = lastConnectionAttemptRef h"
  "attemptsStarted (connect_join h) = attemptsStarted h"
  "connectionFailureCountRef (connect_join h) = connectionFailureCountRef h"
  "reconnectAttemptsRef (connect_join h) = reconnectAttemptsRef h"
  "shouldReconnectRef (connect_join h) = shouldReconnectRef h"
  "isConnectingRef (connect_join h) = isConnectingRef h"
  "reconnectTimeoutRef (connect_join h) = reconnectTimeoutRef h"
  "connectionStatus (connect_join h) = connectionStatus h"
  "pending (connect_join h) = pending h @ [(nextId h, JoinOrCreate)]"
  by (simp_all add: connect_join_def Let_def split: option.splits)


subsection \<open>connect: a request is admitted or dropped\<close>



subsection \<open>The rate limit\<close>






subsection \<open>The circuit breaker\<close>

lemma auto_inv_bound: "auto_inv h \<Longrightarrow> attemptsStarted h \<le> 3"
  by (auto simp: auto_inv_def in_flight_def)

lemma auto_inv_connect:
  assumes "pending h = []" "shouldReconnectRef h" "\<not> isConnectingRef h"
    "reconnectTimeoutRef h = None"
    "attemptsStarted h = connectionFailureCountRef h" "connectionFailureCountRef h \<le> 3"
  shows "auto_inv (connect opts now h)"
  using assms
  by (auto simp: auto_inv_def in_flight_def connect_def Let_def connect_join_def add_task_def
      emit_def split: option.splits)

lemma auto_inv_mount: "auto_inv (mount opts t0 hook_init)"
  unfolding mount_def by (rule auto_inv_connect) (simp_all add: hook_init_def)

lemma auto_inv_clock: "auto_inv (h\<lparr>clock := t\<rparr>) = auto_inv h"
  by (simp add: auto_inv_def in_flight_def)

lemma auto_inv_dispatch:
  assumes "auto_inv h" "dispatch opts now e h = Some h'" "automatic (now, e)"
  shows "auto_inv h'"
proof (cases e)
  case (Fire i)
  from assms(1) have sr: "shouldReconnectRef h" by (simp add: auto_inv_def)
  from assms(2) Fire obtain due k where
    p: "map_of (pending h) i = Some (Timer due k)" and d: "due \<le> now"
    and h': "h' = fire_timer opts now k (remove_task i h)"
    by (auto split: option.splits task.splits if_splits)
  show ?thesis
  proof (cases k)
    case ReconnectTimer
    with assms(1) p have q: "pending h = [(i, Timer due ReconnectTimer)]"
      "\<not> isConnectingRef h" "attemptsStarted h = connectionFailureCountRef h"
      "connectionFailureCountRef h \<le> 3"
      by (auto simp: auto_inv_def in_flight_def split: if_splits)
    have "auto_inv (connect opts now ((remove_task i h)\<lparr>reconnectTimeoutRef := None\<rparr>))"
      by (rule auto_inv_connect) (use q sr in simp_all)
    then show ?thesis using h' ReconnectTimer sr by (simp add: fire_timer_def Let_def)
  next
    case CircuitBreakerReset
    with assms(1) p have q: "pending h = [(i, Timer due CircuitBreakerReset)]"
      "\<not> isConnectingRef h" "attemptsStarted h \<le> 3"
      by (auto simp: auto_inv_def in_flight_def split: if_splits)
    then show ?thesis using h' CircuitBreakerReset sr
      by (simp add: fire_timer_def auto_inv_def remove_task_def)
  next
    case ManualReconnectTimer
    with assms(1) p show ?thesis
      by (auto simp: auto_inv_def in_flight_def split: if_splits)
  next
    case BackoffDelay
    with assms(1) p have q: "pending h = [(i, Timer due BackoffDelay)]" "in_flight h"
      by (auto simp: auto_inv_def in_flight_def split: if_splits)
    then show ?thesis using h' BackoffDelay sr
      by (simp add: fire_timer_def auto_inv_def in_flight_def frame_connect_join)
  qed
next
  case (JoinRejected i err)
  from assms(1) have sr: "shouldReconnectRef h" by (simp add: auto_inv_def)
  from assms(2) JoinRejected have
    p: "map_of (pending h) i = Some JoinOrCreate"
    and h': "h' = connect_rejected opts now err (remove_task i h)"
    by (auto split: option.splits task.splits if_splits)
  with assms(1) have q: "pending h = [(i, JoinOrCreate)]" "in_flight h"
    by (auto simp: auto_inv_def in_flight_def split: if_splits)
  then show ?thesis using h' sr
    by (auto simp: connect_rejected_def Let_def scheduleReconnect_def auto_inv_def in_flight_def
        add_task_def remove_task_def)
qed (use assms(3) in simp_all)

lemma auto_inv_run:
  "auto_inv h \<Longrightarrow> run opts h tes = Some h' \<Longrightarrow> \<forall>te\<in>set tes. automatic te \<Longrightarrow> auto_inv h'"
proof (induction tes arbitrary: h)
  case Nil
  then show ?case by simp
next
  case (Cons te tes)
  then obtain h1 where s: "step opts h te = Some h1" and r: "run opts h1 tes = Some h'"
    by (auto split: option.splits)
  have "auto_inv h1"
    using s Cons.prems auto_inv_dispatch[of "h\<lparr>clock := fst te\<rparr>" opts "fst te" "snd te" h1]
    by (auto simp: step_def auto_inv_clock split: if_splits)
  then show ?case using Cons.IH[OF _ r] Cons.prems(3) by simp
qed

lemma run_three_failures:
  "run auto_options (mount auto_options 1000000 hook_init) three_failures = Some tripped"
  by code_simp

text \<open>
  Claim C4. Mount the hook and let only automatic events follow, timers firing and
  connection attempts failing, in any order and at any times the event loop admits: no
  more than three attempts are ever started, whatever the options, so with auto-reconnect
  on and three reconnect attempts allowed there is no fourth. A connect request that
  reaches the circuit breaker with three or more failures in a row starts no attempt and
  changes nothing but the event loop, to which it adds one timer, due after the number of
  failures times 10000 ms and at most 60000 ms. When that timer fires, the failure count
  becomes zero and nothing else changes: no attempt starts and nothing is scheduled.
\<close>

theorem circuit_breaker:
  "(run opts (mount opts t0 hook_init) tes = Some h \<and> (\<forall>te\<in>set tes. automatic te) \<longrightarrow>
      attemptsStarted h \<le> 3) \<and>
   (\<not> isConnectingRef g \<and> shouldReconnectRef g \<and> 5000 \<le> now - lastConnectionAttemptRef g \<and>
    3 \<le> connectionFailureCountRef g \<longrightarrow>
      connect opts now g =
        g\<lparr>pending := pending g @
             [(nextId g, Timer (now + min (real (connectionFailureCountRef g) * 10000) 60000)
                           CircuitBreakerReset)],
          nextId := Suc (nextId g)\<rparr>) \<and>
   (map_of (pending g) i = Some (Timer due CircuitBreakerReset) \<and> due \<le> now \<longrightarrow>
      dispatch opts now (Fire i) g =
        Some (g\<lparr>pending := filter (\<lambda>p. fst p \<noteq> i) (pending g),
                connectionFailureCountRef := 0\<rparr>))"
proof -
  have "attemptsStarted h \<le> 3"
    if "run opts (mount opts t0 hook_init) tes = Some h" "\<forall>te\<in>set tes. automatic te"
    using auto_inv_run[OF auto_inv_mount that] by (rule auto_inv_bound)
  then show ?thesis
    by (auto simp: connect_def add_task_def fire_timer_def remove_task_def)
qed

theorem circuit_breaker_witness:
  "run auto_options (mount auto_options 1000000 hook_init) three_failures = Some tripped \<and>
   list_all automatic three_failures \<and>
   attemptsStarted tripped = 3 \<and> attemptsStarted tripped \<le> 3 \<and>
   connect auto_options 1040000 tripped =
     tripped\<lparr>pending := [(8, Timer 1067800 CircuitBreakerReset),
                          (9, Timer 1070000 CircuitBreakerReset)],
            nextId := 10\<rparr> \<and>
   dispatch auto_options 1067800 (Fire 8) tripped =
     Some (tripped\<lparr>pending := [], connectionFailureCountRef := 0\<rparr>)"
proof -
  note cb = circuit_breaker[of auto_options 1000000 three_failures tripped tripped 1040000 8
      1067800]
  have a: "\<forall>te\<in>set three_failures. automatic te" by (simp add: three_failures_def)
  have 1: "attemptsStarted tripped \<le> 3" using cb run_three_failures a by blast
  have 2: "connect auto_options 1040000 tripped =
     tripped\<lparr>pending := [(8, Timer 1067800 CircuitBreakerReset),
                          (9, Timer 1070000 CircuitBreakerReset)],
            nextId := 10\<rparr>"
    using cb by (simp add: tripped_def)
  have 3: "dispatch auto_options 1067800 (Fire 8) tripped =
     Some (tripped\<lparr>pending := [], connectionFailureCountRef := 0\<rparr>)"
    using cb by (simp add: tripped_def fire_timer_def remove_task_def)
  show ?thesis using 1 2 3 run_three_failures
    by (simp add: three_failures_def tripped_def)
qed

subsection \<open>Manual reconnect\<close>




text \<open>
  A remark on the source: \<open>manualReconnect\<close> sets \<open>shouldReconnectRef\<close> and then calls
  \<open>cleanup\<close>, which clears it, and the callback of its timer calls \<open>connect\<close> only when
  the flag is set.
\<close>

lemma manualReconnect_flag:
  "shouldReconnectRef (manualReconnect now h) = False"
  "\<not> shouldReconnectRef g \<Longrightarrow> fire_timer opts t ManualReconnectTimer g = g"
  by (simp_all add: manualReconnect_def Let_def frame_cleanup fire_timer_def)

subsection \<open>The backoff delay\<close>

text \<open>
  Claim C7, as stated: before attempt number n, for every n from 0, the delay is
  min(2000 * 1.5^n, 15000) ms, which is 2000 ms for n = 0. It fails at n = 0: with a
  reconnect-attempt count of zero \<open>connect\<close> waits for nothing and calls the server at once.
\<close>

theorem backoff_delay_counterexample:
  "connect_delay 0 = None \<and> min (2000 * 1.5 ^ (0::nat)) 15000 = (2000::real) \<and>
   pending (connect default_options 1000000 hook_init) = [(0, JoinOrCreate)] \<and>
   effects (connect default_options 1000000 hook_init) = [JoinOrCreateCalled]"
  by (simp add: connect_delay_def connect_def Let_def connect_join_def add_task_def emit_def
      hook_init_def)

text \<open>
  Claim C7, amended. An attempt with a reconnect-attempt count n of at least 1 waits
  min(2000 * 1.5^n, 15000) ms before it calls the server: 3000, 4500, 6750, 10125 and
  15000 ms for n = 1 to 5, and 15000 ms from there on. An attempt with a count of zero (a
  first attempt, or the first after a success or a manual reconnect) calls the server
  without a delay.
\<close>

theorem backoff_delay_for_retries:
  "connect_delay 0 = None \<and>
   (0 < n \<longrightarrow> connect_delay n = Some (min (2000 * 1.5 ^ n) 15000)) \<and>
   map connect_delay [1, 2, 3, 4, 5] =
     [Some 3000, Some 4500, Some 6750, Some 10125, Some 15000] \<and>
   (5 \<le> n \<longrightarrow> connect_delay n = Some 15000) \<and>
   (admitted now h \<and> 0 < reconnectAttemptsRef h \<longrightarrow>
      pending (connect opts now h) =
        pending h @
          [(nextId h, Timer (now + min (2000 * 1.5 ^ reconnectAttemptsRef h) 15000) BackoffDelay)] \<and>
      effects (connect opts now h) = effects h) \<and>
   (admitted now h \<and> reconnectAttemptsRef h = 0 \<longrightarrow>
      pending (connect opts now h) = pending h @ [(nextId h, JoinOrCreate)] \<and>
      effects (connect opts now h) =
        effects h @ (case roomRef h of Some r \<Rightarrow> [RoomLeft r] | None \<Rightarrow> []) @
          [JoinOrCreateCalled])"
proof -
  have cap: "connect_delay n = Some 15000" if "5 \<le> n"
  proof -
    have "(1.5::real) ^ 5 \<le> 1.5 ^ n" using that by (intro power_increasing) simp_all
    then have "(15000::real) \<le> 2000 * 1.5 ^ n" by (simp add: power_def)
    then show ?thesis using that by (simp add: connect_delay_def min_def)
  qed
  have vals: "map connect_delay [1, 2, 3, 4, 5] =
      [Some 3000, Some 4500, Some 6750, Some 10125, Some 15000]"
    by (simp add: connect_delay_def power_def)
  show ?thesis using cap vals
    by (auto simp: connect_delay_def admitted_def connect_def Let_def connect_join_def
        add_task_def emit_def split: option.splits)
qed

theorem backoff_delay_for_retries_witness:
  "connect_delay 3 = Some 6750 \<and> connect_delay 7 = Some 15000 \<and>
   pending (connect default_options 1000000 (hook_init\<lparr>reconnectAttemptsRef := 2\<rparr>)) =
     [(0, Timer 1004500 BackoffDelay)] \<and>
   pending (connect default_options 1000000 hook_init) = [(0, JoinOrCreate)]"
  using backoff_delay_for_retries[of 3 1000000 "hook_init\<lparr>reconnectAttemptsRef := 2\<rparr>"
      default_options]
    backoff_delay_for_retries[of 7 1000000 hook_init default_options]
  by (simp add: admitted_def hook_init_def power_def)

subsection \<open>sendMessage\<close>

text \<open>
  Claim C10. \<open>sendMessage\<close> sends the message to the room when the room reference is set
  and the status is connected. In every other case it sends nothing and changes nothing
  of the hook; it returns normally, and what it does instead is print one warning to the
  console.
\<close>

theorem sendMessage_only_when_connected:
  "(\<forall>r. roomRef h = Some r \<and> connectionStatus h = Connected \<longrightarrow>
      sendMessage type data h = h\<lparr>effects := effects h @ [RoomSent r type data]\<rparr>) \<and>
   (roomRef h = None \<or> connectionStatus h \<noteq> Connected \<longrightarrow>
      sendMessage type data h =
        h\<lparr>effects := effects h @ [ConsoleWarn ''Cannot send message: room not connected'']\<rparr>)"
  by (auto simp: sendMessage_def emit_def split: option.splits)

theorem sendMessage_only_when_connected_witness:
  "sendMessage ''chat'' ''hello''
     (hook_init\<lparr>roomRef := Some \<lparr>ri_roomId = ''r1'', ri_sessionId = ''P1''\<rparr>,
                connectionStatus := Connected\<rparr>) =
     hook_init\<lparr>roomRef := Some \<lparr>ri_roomId = ''r1'', ri_sessionId = ''P1''\<rparr>,
               connectionStatus := Connected,
               effects := [RoomSent \<lparr>ri_roomId = ''r1'', ri_sessionId = ''P1''\<rparr> ''chat'' ''hello'']\<rparr> \<and>
   sendMessage ''chat'' ''hello''
     (hook_init\<lparr>roomRef := Some \<lparr>ri_roomId = ''r1'', ri_sessionId = ''P1''\<rparr>,
                connectionStatus := Error\<rparr>) =
     hook_init\<lparr>roomRef := Some \<lparr>ri_roomId = ''r1'', ri_sessionId = ''P1''\<rparr>,
               connectionStatus := Error,
               effects := [ConsoleWarn ''Cannot send message: room not connected'']\<rparr> \<and>
   sendMessage ''chat'' ''hello'' hook_init =
     hook_init\<lparr>effects := [ConsoleWarn ''Cannot send message: room not connected'']\<rparr>"
  using sendMessage_only_when_connected[of
      "hook_init\<lparr>roomRef := Some \<lparr>ri_roomId = ''r1'', ri_sessionId = ''P1''\<rparr>,
                 connectionStatus := Connected\<rparr>" "''chat''" "''hello''"]
    sendMessage_only_when_connected[of
      "hook_init\<lparr>roomRef := Some \<lparr>ri_roomId = ''r1'', ri_sessionId = ''P1''\<rparr>,
                 connectionStatus := Error\<rparr>" "''chat''" "''hello''"]
    sendMessage_only_when_connected[of hook_init "''chat''" "''hello''"]
  by (simp add: hook_init_def)

end
